theory Spec2Isabelle
  imports Main "HOL-Library.Multiset"
begin

section \<open>Errors\<close>

text \<open>
  The gRPC status codes the worker uses (\<open>codes.InvalidArgument\<close>, \<open>codes.Internal\<close>).
\<close>

datatype code = InvalidArgument | Internal

text \<open>
  A Go \<open>error\<close> value. \<open>New\<close> is a plain error known only by its text (\<open>errors.New\<close>,
  \<open>fmt.Errorf\<close> with \<open>%v\<close>, and every error a collaborator hands back); \<open>Wrap err msg\<close> is
  \<open>errors.Wrap(err, msg)\<close>, \<open>errors.Wrapf\<close> and \<open>fmt.Errorf("msg: %w", err)\<close>, which keep
  the cause; \<open>Status c msg\<close> is \<open>status.Error(c, msg)\<close> and \<open>status.Errorf\<close>.
\<close>

datatype error = New string | Wrap error string | Status code string

fun code_String :: "code \<Rightarrow> string" where
  "code_String InvalidArgument = ''InvalidArgument''"
| "code_String Internal = ''Internal''"

text \<open>\<open>err.Error()\<close>: the text that \<open>%v\<close> prints.\<close>

fun Error :: "error \<Rightarrow> string" where
  "Error (New s) = s"
| "Error (Wrap err msg) = msg @ '': '' @ Error err"
| "Error (Status c msg) = ''rpc error: code = '' @ code_String c @ '' desc = '' @ msg"

text \<open>
  The status code an error value carries (\<open>status.FromError\<close> looks at the error value
  itself): only a status error has one, a plain or wrapped error has none.
\<close>

fun status_code :: "error \<Rightarrow> code option" where
  "status_code (Status c msg) = Some c"
| "status_code (New s) = None"
| "status_code (Wrap err msg) = None"

text \<open>A call either returns or panics.\<close>

datatype 'a outcome = Panic | Return 'a

section \<open>Strings and paths of the Go standard library\<close>

text \<open>\<open>strings.HasSuffix(s, suffix)\<close>.\<close>

definition HasSuffix :: "string \<Rightarrow> string \<Rightarrow> bool" where
  "HasSuffix s suffix =
     (length suffix \<le> length s \<and> drop (length s - length suffix) s = suffix)"

text \<open>\<open>strings.Split(s, sep)\<close> for a separator of one character: never empty.\<close>

fun Split :: "string \<Rightarrow> char \<Rightarrow> string list" where
  "Split [] sep = [[]]"
| "Split (c # cs) sep =
     (if c = sep then [] # Split cs sep
      else (case Split cs sep of
              [] \<Rightarrow> [[c]]
            | f # fs \<Rightarrow> (c # f) # fs))"

text \<open>
  \<open>path.Clean\<close>, on the elements between slashes: empty elements and \<open>.\<close> go away, \<open>..\<close>
  removes the element before it (it stays at the front of a path that is not rooted and
  is dropped at the root). The elements kept so far are held in reverse.
\<close>

fun clean_elems :: "bool \<Rightarrow> string list \<Rightarrow> string list \<Rightarrow> string list" where
  "clean_elems rooted acc [] = rev acc"
| "clean_elems rooted acc (e # es) =
     (if e = [] \<or> e = ''.'' then clean_elems rooted acc es
      else if e = ''..'' then
        (case acc of
           [] \<Rightarrow> clean_elems rooted (if rooted then [] else [''..'']) es
         | a # as \<Rightarrow>
             if a = ''..'' then clean_elems rooted (''..'' # acc) es
             else clean_elems rooted as es)
      else clean_elems rooted (e # acc) es)"

fun join_slash :: "string list \<Rightarrow> string" where
  "join_slash [] = []"
| "join_slash [e] = e"
| "join_slash (e # es) = e @ ''/'' @ join_slash es"

definition Clean :: "string \<Rightarrow> string" where
  "Clean p =
     (if p = [] then ''.''
      else let rooted = (hd p = CHR ''/'');
               out = (if rooted then ''/'' else []) @
                     join_slash (clean_elems rooted [] (Split p (CHR ''/'')))
           in if out = [] then ''.'' else out)"

text \<open>\<open>path.Join(elem...)\<close>: empty elements are ignored, the result is cleaned.\<close>

definition path_Join :: "string list \<Rightarrow> string" where
  "path_Join elem =
     (let es = filter (\<lambda>e. e \<noteq> []) elem
      in if es = [] then [] else Clean (join_slash es))"

text \<open>\<open>strconv.Itoa\<close> on a port number.\<close>

fun Itoa :: "nat \<Rightarrow> string" where
  "Itoa n = (if n < 10 then [''0123456789'' ! n]
             else Itoa (n div 10) @ [''0123456789'' ! (n mod 10)])"

declare Itoa.simps [simp del]

section \<open>Nodes and the coordinator\<close>

text \<open>
  Modelled from the spec: the node record and its type (\<open>node.Node\<close>, \<open>node.Type\<close> and
  \<open>node.New\<close> are not among the sources): identity \<open>{ID, Host, Type, Tags}\<close> with
  \<open>Type\<close> one of Master and Worker.
\<close>

datatype NodeType = Master | Worker

record Node =
  ID :: string
  Host :: string
  Type :: NodeType
  Tag :: "(string \<times> string) list"

text \<open>
  Modelled from the spec: \<open>node.New(host, typ)\<close> makes the record of a node with that host
  and type; its identifier is generated, and is an argument here.
\<close>

definition node_New :: "string \<Rightarrow> string \<Rightarrow> NodeType \<Rightarrow> Node" where
  "node_New gen host typ = \<lparr>ID = gen, Host = host, Type = typ, Tag = []\<rparr>"

text \<open>
  A scanned item: its key, and what \<open>item.Unmarshal(n)\<close> gives for its value (the error,
  or the node the value decodes to).
\<close>

record RawItem =
  Key :: string
  Unmarshal :: "error + Node"

text \<open>An operation of a coordinator transaction (the values written are left out).\<close>

datatype TxnOp = PutOp string | IncrementCounterOp string

text \<open>
  \<open>coordinator.Coordinator\<close> is an interface, and no implementation is among the sources.
  A value of this record fixes what each call answers, and holds what the calls that
  succeeded have written: the node records put (newest first, with key and lease) and the
  transactions committed (newest first).
\<close>

record Coordinator =
  GrantLease :: "error + nat"
  Put :: "string \<Rightarrow> error option"
  Delete :: "string \<Rightarrow> error + int"
  Scan :: "string \<Rightarrow> error + RawItem list"
  Commit :: "TxnOp list \<Rightarrow> error option"
  records :: "(string \<times> Node \<times> nat) list"
  committed :: "TxnOp list list"

definition crd_Put :: "Coordinator \<Rightarrow> string \<Rightarrow> Node \<Rightarrow> nat \<Rightarrow> error option \<times> Coordinator" where
  "crd_Put crd key n lease =
     (case Put crd key of
        Some err \<Rightarrow> (Some err, crd)
      | None \<Rightarrow> (None, crd\<lparr>records := (key, n, lease) # records crd\<rparr>))"

definition crd_Commit :: "Coordinator \<Rightarrow> TxnOp list \<Rightarrow> error option \<times> Coordinator" where
  "crd_Commit crd txn =
     (case Commit crd txn of
        Some err \<Rightarrow> (Some err, crd)
      | None \<Rightarrow> (None, crd\<lparr>committed := txn # committed crd\<rparr>))"

section \<open>The node manager\<close>

definition nodeNs :: string where
  "nodeNs = ''nodes''"

text \<open>
  A cached \<open>*grpc.ClientConn\<close>: what its \<open>Close\<close> answers, and whether \<open>Close\<close> has been
  called on it.
\<close>

record ClientConn =
  close_err :: "error option"
  close_called :: bool

definition ClientConn_Close :: "ClientConn \<Rightarrow> error option \<times> ClientConn" where
  "ClientConn_Close c = (close_err c, c\<lparr>close_called := True\<rparr>)"

datatype Ticker = Ticking | Stopped

text \<open>
  The \<open>manager\<close> struct. \<open>self\<close> is a pointer, nil until \<open>RegisterSelf\<close> succeeds;
  \<open>conns\<close> is the \<open>sync.Map\<close> from host to connection, its entries in the order
  \<open>Range\<close> visits them; \<open>livenessProveTick\<close> is nil until the refresher creates it. The
  dial options, the manager options and the logger play no part in the functions below and
  are left out.
\<close>

record manager =
  crd :: Coordinator
  self :: "Node option"
  conns :: "(string \<times> ClientConn) list"
  livenessProveTick :: "Ticker option"

definition registerOrRefresh :: "manager \<Rightarrow> Node \<Rightarrow> error option \<times> manager" where
  "registerOrRefresh m n =
     (case GrantLease (crd m) of
        Inl err \<Rightarrow> (Some (Wrap err ''grant TTL''), m)
      | Inr ttl \<Rightarrow>
          (case crd_Put (crd m) (path_Join [nodeNs, ID n]) n ttl of
             (res, crd') \<Rightarrow> (res, m\<lparr>crd := crd'\<rparr>)))"

text \<open>
  \<open>RegisterSelf\<close>. It starts the refresher with \<open>go\<close> and returns: the ticker is still
  nil when it returns, and is created by the refresher once that runs.
\<close>

definition RegisterSelf :: "manager \<Rightarrow> Node \<Rightarrow> error option \<times> manager" where
  "RegisterSelf m n =
     (case registerOrRefresh m n of
        (Some err, m') \<Rightarrow> (Some err, m')
      | (None, m') \<Rightarrow> (None, m'\<lparr>self := Some n\<rparr>))"

text \<open>
  The first step of \<open>sendPeriodicLivenessProve\<close>, the refresher: it creates the ticker. Its
  periodic refreshes are not followed further.
\<close>

definition sendPeriodicLivenessProve :: "manager \<Rightarrow> manager" where
  "sendPeriodicLivenessProve m = m\<lparr>livenessProveTick := Some Ticking\<rparr>"

definition Self :: "manager \<Rightarrow> Node option" where
  "Self m = self m"

text \<open>The loop of \<open>List\<close> over the scanned items, \<open>nn\<close> being the nodes appended so far.\<close>

fun List_loop :: "RawItem list \<Rightarrow> NodeType \<Rightarrow> Node list \<Rightarrow> error + Node list" where
  "List_loop [] typ nn = Inr nn"
| "List_loop (item # items) typ nn =
     (case Unmarshal item of
        Inl err \<Rightarrow> Inl (Wrap err (''unmarshal item '' @ Key item))
      | Inr n \<Rightarrow>
          if Type n \<noteq> typ then List_loop items typ nn
          else List_loop items typ (nn @ [n]))"

definition List :: "manager \<Rightarrow> NodeType \<Rightarrow> error + Node list" where
  "List m typ =
     (case Scan (crd m) nodeNs of
        Inl err \<Rightarrow> Inl (Wrap err ''scan etcd'')
      | Inr items \<Rightarrow> List_loop items typ [])"

text \<open>
  \<open>UnregisterNode\<close>: \<open>m.self.ID\<close> reads through the pointer \<open>self\<close>, and
  \<open>m.livenessProveTick.Stop()\<close> through the ticker; either panics when nil.
\<close>

definition UnregisterNode :: "manager \<Rightarrow> string \<Rightarrow> (error option \<times> manager) outcome" where
  "UnregisterNode m nid =
     (let key = path_Join [nodeNs, nid]
      in case Delete (crd m) key of
           Inl err \<Rightarrow> Return (Some (New (''failed to remove from etcd: '' @ Error err)), m)
         | Inr deleted \<Rightarrow>
             (case self m of
                None \<Rightarrow> Panic
              | Some s \<Rightarrow>
                  if nid = ID s then
                    (case livenessProveTick m of
                       None \<Rightarrow> Panic
                     | Some t \<Rightarrow>
                         Return (None, m\<lparr>livenessProveTick := Some Stopped, self := None\<rparr>))
                  else Return (None, m)))"

text \<open>
  \<open>Close\<close>: \<open>Range\<close> calls the function on each entry in turn and stops as soon as it
  returns false, that is, when a \<open>Close\<close> of a connection gave an error. \<open>err\<close> is the
  named result, nil at the start.
\<close>

fun Close_Range :: "(string \<times> ClientConn) list \<Rightarrow> error option \<Rightarrow>
    error option \<times> (string \<times> ClientConn) list" where
  "Close_Range [] err = (err, [])"
| "Close_Range ((k, v) # rest) err =
     (case ClientConn_Close v of
        (err', v') \<Rightarrow>
          if err' = None then
            (case Close_Range rest err' of (r, rest') \<Rightarrow> (r, (k, v') # rest'))
          else (err', (k, v') # rest))"

definition Close :: "manager \<Rightarrow> error option \<times> manager" where
  "Close m = (case Close_Range (conns m) None of (err, cs) \<Rightarrow> (err, m\<lparr>conns := cs\<rparr>))"

section \<open>Tasks, stages and requests\<close>

text \<open>
  A stage's user function, by what a run of it does: it returns nil, returns an error,
  panics, or never returns.
\<close>

datatype Function = ReturnsNil | ReturnsErr error | Panics | NeverReturns

text \<open>
  The fields of \<open>stage.Stage\<close> the worker reads (\<open>s.Name\<close>, \<open>s.Function\<close>,
  \<open>cur.Output.Stage\<close>, \<open>cur.Output.Partitioner\<close>); the package itself is not among the
  sources.
\<close>

record StageOutput =
  Stage :: string
  Partitioner :: string

record Stage =
  Name :: string
  Function :: Function
  Output :: StageOutput

text \<open>
  Modelled from the spec: \<open>job.Task\<close>, \<open>job.NewTask\<close> and the task reference are not
  among the sources. A task has the attributes \<open>{JobID, StageName, PartitionID, NodeID}\<close>,
  and its reference serialises to \<open>JobID/StageName/PartitionID\<close>; the coordinator keeps it
  under \<open>tasks/<taskID>\<close>.
\<close>

record Task =
  JobID :: string
  StageName :: string
  PartitionID :: string
  NodeID :: string

definition NewTask :: "string \<Rightarrow> Node \<Rightarrow> string \<Rightarrow> Stage \<Rightarrow> Task" where
  "NewTask partitionID n jobID s =
     \<lparr>JobID = jobID, StageName = Name s, PartitionID = partitionID, NodeID = ID n\<rparr>"

definition Reference_String :: "Task \<Rightarrow> string" where
  "Reference_String t = JobID t @ ''/'' @ StageName t @ ''/'' @ PartitionID t"

definition Task_ID :: "Task \<Rightarrow> string" where
  "Task_ID t = Reference_String t"

text \<open>Modelled from the spec: the states of a task's status.\<close>

datatype RunningState = Pending | Running | Succeeded | Failed

definition newTaskStatus :: RunningState where
  "newTaskStatus = Pending"

record Job =
  Id :: string
  Job_Name :: string

text \<open>\<open>lrmrpb.Output\<close>: the entries of the map \<open>PartitionToHost\<close>, in the order the
  \<open>range\<close> loop visits them.\<close>

record Output_pb =
  PartitionToHost :: "(string \<times> string) list"

text \<open>
  \<open>lrmrpb.CreateTasksRequest\<close>. \<open>Stage_JSON\<close> is what \<open>req.Stage.UnmarshalJSON(&s)\<close>
  gives and \<open>Broadcasts\<close> what \<open>serialization.DeserializeBroadcast(req.Broadcasts)\<close>
  gives; \<open>req_Output\<close> is the field \<open>Output\<close>.
\<close>

record CreateTasksRequest =
  Job :: Job
  Stage_JSON :: "error + Stage"
  Broadcasts :: "error + string"
  PartitionIDs :: "string list"
  req_Output :: Output_pb

section \<open>The job manager\<close>

definition taskNs :: string where "taskNs = ''tasks/''"
definition nodeStatusNs :: string where "nodeStatusNs = ''status/node/''"
definition stageStatusNs :: string where "stageStatusNs = ''status/stages/''"
definition taskStatusNs :: string where "taskStatusNs = ''status/tasks/''"

text \<open>The transaction \<open>jobManager.CreateTask\<close> builds for a task.\<close>

definition CreateTask_txn :: "Task \<Rightarrow> TxnOp list" where
  "CreateTask_txn task =
     [PutOp (path_Join [taskNs, Task_ID task]),
      PutOp (path_Join [taskStatusNs, Reference_String task]),
      IncrementCounterOp (path_Join [stageStatusNs, JobID task, StageName task, ''totalTasks'']),
      IncrementCounterOp (path_Join [nodeStatusNs, NodeID task, ''totalTasks''])]"

definition jobManager_CreateTask ::
    "Coordinator \<Rightarrow> Task \<Rightarrow> (error + RunningState) \<times> Coordinator" where
  "jobManager_CreateTask c task =
     (let status = newTaskStatus
      in case crd_Commit c (CreateTask_txn task) of
           (Some err, c') \<Rightarrow> (Inl (Wrap err ''task write''), c')
         | (None, c') \<Rightarrow> (Inr status, c'))"

section \<open>Inputs, outputs and executors\<close>

type_synonym addr = nat

type_synonym Row = string

text \<open>
  Modelled from the spec: \<open>input.Reader\<close> (not among the sources) is a bounded queue of
  rows of length \<open>QueueLength\<close>; \<open>input.NewReader(n)\<close> makes an empty one.
\<close>

record Reader =
  queue :: "Row list"
  QueueLength :: int

definition NewReader :: "int \<Rightarrow> Reader" where
  "NewReader n = \<lparr>queue = [], QueueLength = n\<rparr>"

text \<open>
  The outputs a writer sends to (package \<open>output\<close> is not among the sources, these are
  its constructors as the worker calls them): \<open>NewLocalPipe(t.Input)\<close>, holding the address
  of an executor's input reader, and \<open>NewBufferedOutput(out, n)\<close> around the push stream
  \<open>NewPushStream(ctx, nodeManager, host, taskID)\<close> returned.
\<close>

record PushStream =
  to_host :: string
  to_task :: string

datatype Output = LocalPipe addr | BufferedOutput PushStream int

text \<open>\<open>output.NewWriter(ctx, partitioner, idToOutput)\<close>.\<close>

record Writer =
  partitioner :: string
  outputs :: "string \<rightharpoonup> Output"

text \<open>
  Modelled from the spec: the task context (\<open>newTaskContext\<close> is not among the sources)
  carries the task and the deserialized broadcast variables.
\<close>

record taskContext =
  ctx_task :: Task
  ctx_broadcasts :: string

definition newTaskContext :: "Task \<Rightarrow> string \<Rightarrow> taskContext" where
  "newTaskContext task broadcasts = \<lparr>ctx_task = task, ctx_broadcasts = broadcasts\<rparr>"

text \<open>
  Modelled from the spec: \<open>TaskExecutor\<close> (not among the sources) is constructed from
  \<open>(context, task, function, input, output)\<close> and starts in state Pending. \<open>Input\<close> is the
  address of its input reader; \<open>ctx\<close> is the field \<open>context\<close> and \<open>fn\<close> the function.
\<close>

record TaskExecutor =
  ctx :: taskContext
  task :: Task
  fn :: Function
  Input :: addr
  writer :: Writer
  state :: RunningState

definition terminal :: "RunningState \<Rightarrow> bool" where
  "terminal s = (s = Succeeded \<or> s = Failed)"

text \<open>
  Modelled from the spec: \<open>TaskExecutor.WaitForFinish\<close> (not among the sources) blocks
  until the executor has reached a terminal state. The run of the user function decides it (returning nil gives Succeeded,
  returning an error or panicking gives Failed); when the function never returns, neither
  does \<open>WaitForFinish\<close> (None).
\<close>

definition WaitForFinish :: "TaskExecutor \<Rightarrow> TaskExecutor option" where
  "WaitForFinish e =
     (if terminal (state e) then Some e
      else (case fn e of
              ReturnsNil \<Rightarrow> Some (e\<lparr>state := Succeeded\<rparr>)
            | ReturnsErr err \<Rightarrow> Some (e\<lparr>state := Failed\<rparr>)
            | Panics \<Rightarrow> Some (e\<lparr>state := Failed\<rparr>)
            | NeverReturns \<Rightarrow> None))"

section \<open>The worker\<close>

record Options =
  ListenHost :: string
  AdvertisedHost :: string
  NodeTags :: "(string \<times> string) list"
  Input_QueueLength :: int
  Input_MaxRecvSize :: int
  Output_BufferLength :: int

text \<open>
  \<open>job.Reporter\<close> (not among the sources), by the calls the worker makes on it: the
  tasks added, the failures reported, and whether it has been started.
\<close>

record Reporter =
  added :: "(string \<times> RunningState) list"
  failures :: "(string \<times> error) list"
  reporting :: bool

text \<open>
  The \<open>Worker\<close> struct. \<open>runningTasks\<close> maps a task reference to the address of its
  executor; \<open>executors\<close> and \<open>readers\<close> are the store of the executors and input readers
  allocated so far, \<open>next_addr\<close> the next free address, and \<open>started\<close> the executors
  whose \<open>Run\<close> has been launched (\<open>go exec.Run()\<close>), oldest first. The job manager
  works on the coordinator of the node manager. One call runs at a time, so the lock of the
  registry is not modelled; the gRPC server and the worker-local options play no part in the
  functions below and are left out.
\<close>

record Worker =
  nodeManager :: manager
  jobReporter :: Reporter
  runningTasks :: "string \<rightharpoonup> addr"
  opt :: Options
  executors :: "addr \<Rightarrow> TaskExecutor"
  readers :: "addr \<Rightarrow> Reader"
  next_addr :: addr
  started :: "addr list"

text \<open>The listener \<open>net.Listen\<close> returns; its address prints as \<open>net.JoinHostPort\<close> does.\<close>

record Listener =
  IP :: string
  Port :: nat

definition Addr_String :: "Listener \<Rightarrow> string" where
  "Addr_String lis =
     (if CHR '':'' \<in> set (IP lis) \<or> CHR ''%'' \<in> set (IP lis)
      then ''['' @ IP lis @ '']:'' @ Itoa (Port lis)
      else IP lis @ '':'' @ Itoa (Port lis))"

text \<open>
  What the collaborators outside the sources answer when the worker calls them:
  \<open>net.Listen("tcp", host)\<close>, the identifier \<open>node.New\<close> generates, \<open>server.Serve\<close>,
  \<open>output.NewPushStream\<close> for a host and task, \<open>NewTaskExecutor\<close> for a task (an error,
  or none), and \<open>jobReporter.ReportFailure\<close> for a task reference. \<open>Schedule\<close> is the
  order in which the Go scheduler runs the functions of an error group, given the order in
  which they were started.
\<close>

record Externals =
  Listen_result :: "string \<Rightarrow> error + Listener"
  GenerateID :: string
  Serve_result :: "error option"
  NewPushStream_result :: "string \<Rightarrow> string \<Rightarrow> error + PushStream"
  NewTaskExecutor_result :: "Task \<Rightarrow> error option"
  ReportFailure_result :: "string \<Rightarrow> error option"
  Schedule :: "string list \<Rightarrow> string list"

definition Reporter_Add :: "Reporter \<Rightarrow> string \<Rightarrow> RunningState \<Rightarrow> Reporter" where
  "Reporter_Add r ref ts = r\<lparr>added := added r @ [(ref, ts)]\<rparr>"

definition Reporter_ReportFailure ::
    "Externals \<Rightarrow> Reporter \<Rightarrow> string \<Rightarrow> error \<Rightarrow> error option \<times> Reporter" where
  "Reporter_ReportFailure x r ref err =
     (case ReportFailure_result x ref of
        Some reportErr \<Rightarrow> (Some reportErr, r)
      | None \<Rightarrow> (None, r\<lparr>failures := failures r @ [(ref, err)]\<rparr>))"

definition Start :: "Externals \<Rightarrow> Worker \<Rightarrow> error option \<times> Worker" where
  "Start x w =
     (case Listen_result x (ListenHost (opt w)) of
        Inl err \<Rightarrow> (Some err, w)
      | Inr lis \<Rightarrow>
          (let advHost = AdvertisedHost (opt w);
               advHost = (if HasSuffix advHost '':''
                          then advHost @ last (Split (Addr_String lis) (CHR '':''))
                          else advHost);
               n = (node_New (GenerateID x) advHost Worker)\<lparr>Tag := NodeTags (opt w)\<rparr>
           in case RegisterSelf (nodeManager w) n of
                (Some err, m') \<Rightarrow> (Some (Wrap err ''register worker''), w\<lparr>nodeManager := m'\<rparr>)
              | (None, m') \<Rightarrow>
                  (Serve_result x,
                   w\<lparr>nodeManager := m', jobReporter := (jobReporter w)\<lparr>reporting := True\<rparr>\<rparr>)))"

definition getRunningTask :: "Worker \<Rightarrow> string \<Rightarrow> addr option" where
  "getRunningTask w taskID = runningTasks w taskID"

text \<open>
  The loop of \<open>newOutputWriter\<close> over the entries of the partition map.
  \<open>w.nodeManager.Self().Host\<close> reads through the pointer \<open>Self()\<close> returns, and panics
  when it is nil.
\<close>

fun newOutputWriter_loop ::
    "Externals \<Rightarrow> Worker \<Rightarrow> string \<Rightarrow> Stage \<Rightarrow> (string \<times> string) list \<Rightarrow>
     (string \<rightharpoonup> Output) \<Rightarrow> (error + (string \<rightharpoonup> Output)) outcome" where
  "newOutputWriter_loop x w jobID cur [] idToOutput = Return (Inr idToOutput)"
| "newOutputWriter_loop x w jobID cur ((pid, host) # rest) idToOutput =
     (let taskID = path_Join [jobID, Stage (Output cur), pid];
          remote =
            (case NewPushStream_result x host taskID of
               Inl err \<Rightarrow> Return (Inl err)
             | Inr out \<Rightarrow>
                 newOutputWriter_loop x w jobID cur rest
                   (idToOutput(pid \<mapsto> BufferedOutput out (Output_BufferLength (opt w)))))
      in case Self (nodeManager w) of
           None \<Rightarrow> Panic
         | Some sn \<Rightarrow>
             if host = Host sn then
               (case getRunningTask w taskID of
                  Some t \<Rightarrow>
                    newOutputWriter_loop x w jobID cur rest
                      (idToOutput(pid \<mapsto> LocalPipe (Input (executors w t))))
                | None \<Rightarrow> remote)
             else remote)"

definition newOutputWriter ::
    "Externals \<Rightarrow> Worker \<Rightarrow> taskContext \<Rightarrow> string \<Rightarrow> Stage \<Rightarrow> Output_pb \<Rightarrow>
     (error + Writer) outcome" where
  "newOutputWriter x w c jobID cur out =
     (case newOutputWriter_loop x w jobID cur (PartitionToHost out) Map.empty of
        Panic \<Rightarrow> Panic
      | Return (Inl err) \<Rightarrow> Return (Inl err)
      | Return (Inr idToOutput) \<Rightarrow>
          Return (Inr \<lparr>partitioner = Partitioner (Output cur), outputs = idToOutput\<rparr>))"

text \<open>
  Modelled from the spec: \<open>NewTaskExecutor(c, task, fn, in, out)\<close> (not among the sources)
  gives an error, or a new executor in state Pending, stored here at the next free address.
\<close>

definition NewTaskExecutor ::
    "Externals \<Rightarrow> Worker \<Rightarrow> taskContext \<Rightarrow> Task \<Rightarrow> Function \<Rightarrow> addr \<Rightarrow> Writer \<Rightarrow>
     error + (addr \<times> Worker)" where
  "NewTaskExecutor x w c t f inp out =
     (case NewTaskExecutor_result x t of
        Some err \<Rightarrow> Inl err
      | None \<Rightarrow>
          Inr (next_addr w,
               w\<lparr>executors := (executors w)(next_addr w :=
                     \<lparr>ctx = c, task = t, fn = f, Input = inp, writer = out,
                      state = Pending\<rparr>),
                 next_addr := Suc (next_addr w)\<rparr>))"

text \<open>
  Modelled from the spec: \<open>go exec.Run()\<close> (\<open>TaskExecutor.Run\<close> is not among the sources).
  The run loop sets the status to Running, invokes the user function and writes the terminal
  status. The launch is its first step, and puts the executor among the launched ones; the
  rest of the run goes on beside the worker, and \<open>WaitForFinish\<close> gives its end.
\<close>

definition go_Run :: "Worker \<Rightarrow> addr \<Rightarrow> Worker" where
  "go_Run w exec =
     w\<lparr>executors := (executors w)(exec := (executors w exec)\<lparr>state := Running\<rparr>),
       started := started w @ [exec]\<rparr>"

text \<open>
  \<open>createTask\<close>. \<open>job.NewTask\<close> reads the ID of the node \<open>Self()\<close> points to, and panics
  when it is nil. The input reader is allocated before the output writer is built.
\<close>

definition createTask ::
    "Externals \<Rightarrow> Worker \<Rightarrow> CreateTasksRequest \<Rightarrow> string \<Rightarrow> Stage \<Rightarrow> string \<Rightarrow>
     (error option \<times> Worker) outcome" where
  "createTask x w req partitionID s broadcasts =
     (case Self (nodeManager w) of
        None \<Rightarrow> Panic
      | Some sn \<Rightarrow>
          (let task = NewTask partitionID sn (Id (Job req)) s
           in case jobManager_CreateTask (crd (nodeManager w)) task of
                (Inl err, c') \<Rightarrow>
                  Return (Some (Status Internal (''create task failed: '' @ Error err)),
                          w\<lparr>nodeManager := (nodeManager w)\<lparr>crd := c'\<rparr>\<rparr>)
              | (Inr ts, c') \<Rightarrow>
                  (let w1 = w\<lparr>nodeManager := (nodeManager w)\<lparr>crd := c'\<rparr>,
                              jobReporter := Reporter_Add (jobReporter w) (Reference_String task) ts\<rparr>;
                       c = newTaskContext task broadcasts;
                       inp = next_addr w1;
                       w2 = w1\<lparr>readers := (readers w1)(inp := NewReader (Input_QueueLength (opt w1))),
                               next_addr := Suc (next_addr w1)\<rparr>
                   in case newOutputWriter x w2 c (Id (Job req)) s (req_Output req) of
                        Panic \<Rightarrow> Panic
                      | Return (Inl err) \<Rightarrow>
                          Return (Some (Status Internal (''unable to create output: '' @ Error err)), w2)
                      | Return (Inr out) \<Rightarrow>
                          (case NewTaskExecutor x w2 c task (Function s) inp out of
                             Inl err \<Rightarrow>
                               (let err = Wrap err ''failed to start executor''
                                in case Reporter_ReportFailure x (jobReporter w2)
                                          (Reference_String task) err of
                                     (Some reportErr, r) \<Rightarrow>
                                       Return (Some reportErr, w2\<lparr>jobReporter := r\<rparr>)
                                   | (None, r) \<Rightarrow> Return (Some err, w2\<lparr>jobReporter := r\<rparr>))
                           | Inr (exec, w3) \<Rightarrow>
                               Return (None,
                                 go_Run
                                   (w3\<lparr>runningTasks :=
                                         (runningTasks w3)(Reference_String task \<mapsto> exec)\<rparr>)
                                   exec)))))"

text \<open>
  The error group of \<open>CreateTasks\<close>: one \<open>createTask\<close> for each partition ID, started
  with \<open>wg.Go\<close> and running concurrently. Here each of them runs without interruption, one
  after the other in the order \<open>ps\<close> the scheduler has chosen; \<open>err\<close> is the first error
  returned so far in that order, that is, the first in time, which is what \<open>wg.Wait()\<close>
  hands back. A panic in one of them ends the process.
\<close>

fun createTasks_group ::
    "Externals \<Rightarrow> Worker \<Rightarrow> CreateTasksRequest \<Rightarrow> Stage \<Rightarrow> string \<Rightarrow> string list \<Rightarrow>
     error option \<Rightarrow> (error option \<times> Worker) outcome" where
  "createTasks_group x w req s broadcasts [] err = Return (err, w)"
| "createTasks_group x w req s broadcasts (p # ps) err =
     (case createTask x w req p s broadcasts of
        Panic \<Rightarrow> Panic
      | Return (e, w') \<Rightarrow>
          createTasks_group x w' req s broadcasts ps (if err = None then e else err))"

definition CreateTasks ::
    "Externals \<Rightarrow> Worker \<Rightarrow> CreateTasksRequest \<Rightarrow> (error option \<times> Worker) outcome" where
  "CreateTasks x w req =
     (case Stage_JSON req of
        Inl err \<Rightarrow> Return (Some (Status InvalidArgument (''invalid stage JSON: '' @ Error err)), w)
      | Inr s \<Rightarrow>
          (case Broadcasts req of
             Inl err \<Rightarrow> Return (Some (Status InvalidArgument (Error err)), w)
           | Inr broadcasts \<Rightarrow>
               createTasks_group x w req s broadcasts (Schedule x (PartitionIDs req)) None))"

section \<open>Push streams\<close>

record DataHeader =
  TaskID :: string
  FromHost :: string

text \<open>
  An inbound push stream (\<open>lrmrpb.Node_PushDataServer\<close>): what
  \<open>lrmrpb.DataHeaderFromMetadata(stream)\<close> gives, what the successive receives give before
  the stream ends (a batch of rows, or an error), and what \<open>SendAndClose\<close> answers.
\<close>

record PushDataServer =
  header :: "error + DataHeader"
  frames :: "(error + Row list) list"
  SendAndClose_result :: "error option"

text \<open>
  Modelled from the spec: \<open>input.NewPushStream(reader, stream).Dispatch\<close> (not among the
  sources) reads the framed row batches and enqueues them in the reader until the stream
  ends; an error of the stream is returned.
\<close>

fun Dispatch :: "Reader \<Rightarrow> (error + Row list) list \<Rightarrow> error option \<times> Reader" where
  "Dispatch r [] = (None, r)"
| "Dispatch r (Inl err # fs) = (Some err, r)"
| "Dispatch r (Inr rows # fs) = Dispatch (r\<lparr>queue := queue r @ rows\<rparr>) fs"

text \<open>The deferred function of \<open>PushData\<close>.\<close>

definition delete_runningTask :: "Worker \<Rightarrow> string \<Rightarrow> Worker" where
  "delete_runningTask w taskID = w\<lparr>runningTasks := (runningTasks w)(taskID := None)\<rparr>"

text \<open>\<open>PushData\<close>; None when it never returns.\<close>

definition PushData :: "Worker \<Rightarrow> PushDataServer \<Rightarrow> (error option \<times> Worker) option" where
  "PushData w stream =
     (case header stream of
        Inl err \<Rightarrow> Some (Some (Status InvalidArgument (Error err)), w)
      | Inr h \<Rightarrow>
          (case getRunningTask w (TaskID h) of
             None \<Rightarrow> Some (Some (Status InvalidArgument (''task not found: '' @ TaskID h)), w)
           | Some exec \<Rightarrow>
               (let inp = Input (executors w exec)
                in case Dispatch (readers w inp) (frames stream) of
                     (Some err, r) \<Rightarrow>
                       Some (Some err,
                             delete_runningTask (w\<lparr>readers := (readers w)(inp := r)\<rparr>) (TaskID h))
                   | (None, r) \<Rightarrow>
                       (let w1 = w\<lparr>readers := (readers w)(inp := r)\<rparr>
                        in case WaitForFinish (executors w1 exec) of
                             None \<Rightarrow> None
                           | Some e \<Rightarrow>
                               Some (SendAndClose_result stream,
                                     delete_runningTask
                                       (w1\<lparr>executors := (executors w1)(exec := e)\<rparr>)
                                       (TaskID h))))))"

section \<open>Notions used in the statements\<close>

text \<open>
  The nodes the scanned items decode to, in scan order.
\<close>

definition scanned_nodes :: "RawItem list \<Rightarrow> Node list" where
  "scanned_nodes items =
     List.map_filter (\<lambda>item. case Unmarshal item of Inl err \<Rightarrow> None | Inr n \<Rightarrow> Some n) items"

text \<open>
  A cache entry after \<open>Close\<close> has been called on its connection.
\<close>

definition called :: "string \<times> ClientConn \<Rightarrow> string \<times> ClientConn" where
  "called kv = (fst kv, (snd kv)\<lparr>close_called := True\<rparr>)"

text \<open>
  The error a call returned, leaving out the state it returned with.
\<close>

definition outcome_error :: "(error option \<times> 'a) outcome \<Rightarrow> error option outcome" where
  "outcome_error r = (case r of Panic \<Rightarrow> Panic | Return (err, s) \<Rightarrow> Return err)"

text \<open>
  The executors launched between two states of the worker, and the partition IDs of their
  tasks: the partitions whose executor was constructed, recorded and started in between.
\<close>

definition started_since :: "Worker \<Rightarrow> Worker \<Rightarrow> addr list" where
  "started_since w w' = drop (length (started w)) (started w')"

definition created_partitions :: "Worker \<Rightarrow> Worker \<Rightarrow> string list" where
  "created_partitions w w' = map (\<lambda>a. PartitionID (task (executors w' a))) (started_since w w')"





section \<open>Example values\<close>

text \<open>
  A coordinator that answers every call with success, and one that is unreachable.
\<close>

definition ex_crd :: Coordinator where
  "ex_crd = \<lparr>GrantLease = Inr 7, Put = (\<lambda>key. None), Delete = (\<lambda>key. Inr 1),
     Scan = (\<lambda>prefix. Inr []), Commit = (\<lambda>txn. None), records = [], committed = []\<rparr>"

definition ex_crd_down :: Coordinator where
  "ex_crd_down = \<lparr>GrantLease = Inl (New ''etcd unavailable''),
     Put = (\<lambda>key. Some (New ''etcd unavailable'')),
     Delete = (\<lambda>key. Inl (New ''etcd unavailable'')),
     Scan = (\<lambda>prefix. Inl (New ''etcd unavailable'')),
     Commit = (\<lambda>txn. Some (New ''etcd unavailable'')), records = [], committed = []\<rparr>"

text \<open>
  A node manager before \<open>RegisterSelf\<close>, with either coordinator, and one that has
  registered the worker node \<open>N1\<close>.
\<close>

definition ex_manager :: manager where
  "ex_manager = \<lparr>crd = ex_crd, self = None, conns = [], livenessProveTick = None\<rparr>"

definition ex_manager_down :: manager where
  "ex_manager_down = \<lparr>crd = ex_crd_down, self = None, conns = [], livenessProveTick = None\<rparr>"

definition ex_node1 :: Node where
  "ex_node1 = \<lparr>ID = ''N1'', Host = ''10.0.0.1:7000'', Type = Worker, Tag = []\<rparr>"

definition ex_node2 :: Node where
  "ex_node2 = \<lparr>ID = ''M1'', Host = ''10.0.0.9:7000'', Type = Master, Tag = []\<rparr>"

definition ex_node3 :: Node where
  "ex_node3 = \<lparr>ID = ''N3'', Host = ''10.0.0.3:7000'', Type = Worker, Tag = []\<rparr>"

definition ex_manager_registered :: manager where
  "ex_manager_registered =
     \<lparr>crd = ex_crd, self = Some ex_node1, conns = [], livenessProveTick = Some Ticking\<rparr>"

text \<open>
  Scanned items: three records that decode, and a master record that does not before a
  worker record that does.
\<close>

definition ex_items_ok :: "RawItem list" where
  "ex_items_ok = [\<lparr>Key = ''nodes/M1'', Unmarshal = Inr ex_node2\<rparr>,
                  \<lparr>Key = ''nodes/N1'', Unmarshal = Inr ex_node1\<rparr>,
                  \<lparr>Key = ''nodes/N3'', Unmarshal = Inr ex_node3\<rparr>]"

definition ex_items_bad :: "RawItem list" where
  "ex_items_bad = [\<lparr>Key = ''nodes/M1'', Unmarshal = Inl (New ''unexpected end of JSON input'')\<rparr>,
                   \<lparr>Key = ''nodes/N1'', Unmarshal = Inr ex_node1\<rparr>]"

definition ex_manager_scanning :: "RawItem list \<Rightarrow> manager" where
  "ex_manager_scanning items = ex_manager\<lparr>crd := ex_crd\<lparr>Scan := (\<lambda>prefix. Inr items)\<rparr>\<rparr>"

text \<open>
  Cached connections: one whose close succeeds and one whose close fails.
\<close>

definition ex_conn_ok :: ClientConn where
  "ex_conn_ok = \<lparr>close_err = None, close_called = False\<rparr>"

definition ex_conn_bad :: ClientConn where
  "ex_conn_bad = \<lparr>close_err = Some (New ''grpc: the client connection is closing''),
                   close_called = False\<rparr>"

definition ex_manager_conns :: manager where
  "ex_manager_conns = ex_manager\<lparr>conns := [(''10.0.0.2:7000'', ex_conn_bad), (''10.0.0.3:7000'', ex_conn_ok)]\<rparr>"

definition ex_manager_conns_ok :: manager where
  "ex_manager_conns_ok = ex_manager\<lparr>conns := [(''10.0.0.2:7000'', ex_conn_ok), (''10.0.0.3:7000'', ex_conn_ok)]\<rparr>"

text \<open>
  A worker that has not started, whose advertised host ends in the port separator, the same
  with a port in its advertised host, and a worker that runs the task \<open>J1/reduce/0\<close> (its executor
  at address 1, the reader of that executor at address 0).
\<close>

definition ex_opt :: Options where
  "ex_opt = \<lparr>ListenHost = ''0.0.0.0:0'', AdvertisedHost = ''worker-1:'', NodeTags = [],
     Input_QueueLength = 1000, Input_MaxRecvSize = 67108864, Output_BufferLength = 500\<rparr>"

definition ex_stage :: Stage where
  "ex_stage = \<lparr>Name = ''map'', Function = ReturnsNil,
     Output = \<lparr>Stage = ''reduce'', Partitioner = ''hash''\<rparr>\<rparr>"

definition ex_task :: Task where
  "ex_task = \<lparr>JobID = ''J1'', StageName = ''reduce'', PartitionID = ''0'', NodeID = ''N1''\<rparr>"

definition ex_exec :: TaskExecutor where
  "ex_exec = \<lparr>ctx = newTaskContext ex_task [], task = ex_task, fn = ReturnsNil, Input = 0,
     writer = \<lparr>partitioner = ''hash'', outputs = Map.empty\<rparr>, state = Running\<rparr>"

definition ex_worker_new :: Worker where
  "ex_worker_new = \<lparr>nodeManager = ex_manager,
     jobReporter = \<lparr>added = [], failures = [], reporting = False\<rparr>,
     runningTasks = Map.empty, opt = ex_opt,
     executors = (\<lambda>a. ex_exec), readers = (\<lambda>a. NewReader 1000), next_addr = 0, started = []\<rparr>"

definition ex_worker_fixed_port :: Worker where
  "ex_worker_fixed_port = ex_worker_new\<lparr>opt := ex_opt\<lparr>AdvertisedHost := ''worker-1:7000''\<rparr>\<rparr>"

definition ex_worker :: Worker where
  "ex_worker = \<lparr>nodeManager = ex_manager_registered,
     jobReporter = \<lparr>added = [(''J1/reduce/0'', Pending)], failures = [], reporting = True\<rparr>,
     runningTasks = [''J1/reduce/0'' \<mapsto> 1], opt = ex_opt,
     executors = (\<lambda>a. ex_exec), readers = (\<lambda>a. NewReader 1000), next_addr = 2, started = [1]\<rparr>"

text \<open>
  Collaborators that answer with success, the functions of an error group running in the
  order they were started; the same with the functions running in the opposite order; ones
  whose \<open>NewTaskExecutor\<close> always fails; ones whose \<open>NewTaskExecutor\<close> fails for partition
  \<open>1\<close> only.
\<close>

definition ex_externals :: Externals where
  "ex_externals = \<lparr>Listen_result = (\<lambda>host. Inr \<lparr>IP = ''0.0.0.0'', Port = 54321\<rparr>),
     GenerateID = ''N1'', Serve_result = None,
     NewPushStream_result = (\<lambda>host taskID. Inr \<lparr>to_host = host, to_task = taskID\<rparr>),
     NewTaskExecutor_result = (\<lambda>t. None),
     ReportFailure_result = (\<lambda>ref. None),
     Schedule = (\<lambda>ps. ps)\<rparr>"

definition ex_externals_reversed :: Externals where
  "ex_externals_reversed = ex_externals\<lparr>Schedule := rev\<rparr>"

definition ex_externals_no_executor :: Externals where
  "ex_externals_no_executor =
     ex_externals\<lparr>NewTaskExecutor_result := (\<lambda>t. Some (New ''unknown function''))\<rparr>"

definition ex_externals_second_fails :: Externals where
  "ex_externals_second_fails =
     ex_externals\<lparr>NewTaskExecutor_result :=
        (\<lambda>t. if PartitionID t = ''1'' then Some (New ''unknown function'') else None)\<rparr>"

text \<open>
  A request for the partitions \<open>0\<close> and \<open>1\<close> of stage \<open>map\<close>, whose output goes to stage
  \<open>reduce\<close> (partition \<open>0\<close> on this worker, partition \<open>1\<close> on another), the writer it
  gives, and a request with no partition whose stage does not decode.
\<close>

definition ex_req :: CreateTasksRequest where
  "ex_req = \<lparr>Job = \<lparr>Id = ''J1'', Job_Name = ''wordcount''\<rparr>, Stage_JSON = Inr ex_stage,
     Broadcasts = Inr [], PartitionIDs = [''0'', ''1''],
     req_Output = \<lparr>PartitionToHost = [(''0'', ''10.0.0.1:7000''), (''1'', ''10.0.0.2:7000'')]\<rparr>\<rparr>"

definition ex_writer :: Writer where
  "ex_writer = \<lparr>partitioner = ''hash'',
     outputs = [''0'' \<mapsto> LocalPipe 0,
                ''1'' \<mapsto> BufferedOutput \<lparr>to_host = ''10.0.0.2:7000'', to_task = ''J1/reduce/1''\<rparr> 500]\<rparr>"


text \<open>
  Push streams for the running task (one that ends well, one that breaks after the first
  batch) and one for a task that is not running.
\<close>

definition ex_stream :: PushDataServer where
  "ex_stream = \<lparr>header = Inr \<lparr>TaskID = ''J1/reduce/0'', FromHost = ''10.0.0.2:7000''\<rparr>,
     frames = [Inr [''a'', ''b''], Inr [''c'']], SendAndClose_result = None\<rparr>"

definition ex_stream_broken :: PushDataServer where
  "ex_stream_broken = \<lparr>header = Inr \<lparr>TaskID = ''J1/reduce/0'', FromHost = ''10.0.0.2:7000''\<rparr>,
     frames = [Inr [''a'', ''b''], Inl (New ''connection reset'')], SendAndClose_result = None\<rparr>"

definition ex_stream_absent :: PushDataServer where
  "ex_stream_absent = \<lparr>header = Inr \<lparr>TaskID = ''J1/reduce/7'', FromHost = ''10.0.0.2:7000''\<rparr>,
     frames = [Inr [''a'']], SendAndClose_result = None\<rparr>"

section \<open>Splitting the listener address\<close>

lemma Split_no_sep: "sep \<notin> set s \<Longrightarrow> Split s sep = [s]"
  by (induction s) auto

lemma Split_not_Nil: "Split s sep \<noteq> []"
  by (induction s) (auto split: list.splits)

lemma Split_append_sep:
  "sep \<notin> set p \<Longrightarrow> \<exists>f fs. Split (a @ sep # p) sep = (f # fs) @ [p]"
proof (induction a)
  case Nil
  then show ?case by (simp add: Split_no_sep)
next
  case (Cons c a)
  then obtain f fs where "Split (a @ sep # p) sep = (f # fs) @ [p]" by blast
  then show ?case by (cases "c = sep") auto
qed

lemma last_Split: "sep \<notin> set p \<Longrightarrow> last (Split (a @ sep # p) sep) = p"
  using Split_append_sep [of sep p a] by auto

lemma digit_not_colon: "d < 10 \<Longrightarrow> ''0123456789'' ! d \<noteq> CHR '':''"
proof -
  assume "d < 10"
  then have "d \<in> {0, 1, 2, 3, 4, 5, 6, 7, 8, 9}" by auto
  then show ?thesis by auto
qed

lemma Itoa_no_colon: "CHR '':'' \<notin> set (Itoa n)"
proof (induction n rule: Itoa.induct)
  case (1 n)
  show ?case
  proof (cases "n < 10")
    case True
    then show ?thesis using digit_not_colon [of n] by (simp add: Itoa.simps [of n])
  next
    case False
    then show ?thesis
      using 1 digit_not_colon [of "n mod 10"] by (simp add: Itoa.simps [of n])
  qed
qed

lemma last_Split_Addr: "last (Split (Addr_String lis) (CHR '':'')) = Itoa (Port lis)"
proof (cases "CHR '':'' \<in> set (IP lis) \<or> CHR ''%'' \<in> set (IP lis)")
  case True
  then have "Addr_String lis = (''['' @ IP lis @ '']'') @ CHR '':'' # Itoa (Port lis)"
    by (simp add: Addr_String_def)
  then show ?thesis using last_Split [OF Itoa_no_colon] by metis
next
  case False
  then have "Addr_String lis = IP lis @ CHR '':'' # Itoa (Port lis)"
    by (simp add: Addr_String_def)
  then show ?thesis using last_Split [OF Itoa_no_colon] by metis
qed

section \<open>Properties of the node manager\<close>

subsection \<open>List\<close>

lemma List_loop_fails:
  "\<exists>item\<in>set items. isl (Unmarshal item) \<Longrightarrow> \<exists>err. List_loop items typ nn = Inl err"
  by (induction items arbitrary: nn) (auto split: sum.splits)

lemma List_loop_filters:
  "\<forall>item\<in>set items. \<not> isl (Unmarshal item) \<Longrightarrow>
   List_loop items typ nn = Inr (nn @ filter (\<lambda>n. Type n = typ) (scanned_nodes items))"
  by (induction items arbitrary: nn)
     (auto simp: scanned_nodes_def List.map_filter_simps split: sum.splits)

text \<open>
  Claim C10. \<open>List\<close> returns an error, and so no node at all, as soon as one record scanned
  under the prefix fails to unmarshal: the failure is met before the type is looked at, so a
  record of any type does it. When every record unmarshals, \<open>List\<close> returns exactly the scanned
  nodes whose type is the requested one, in scan order.
\<close>

theorem List_all_or_nothing:
  assumes "Scan (crd m) nodeNs = Inr items"
  shows "((\<exists>item\<in>set items. isl (Unmarshal item)) \<longrightarrow> (\<exists>err. List m typ = Inl err)) \<and>
         ((\<forall>item\<in>set items. \<not> isl (Unmarshal item)) \<longrightarrow>
            List m typ = Inr (filter (\<lambda>n. Type n = typ) (scanned_nodes items)))"
  using assms List_loop_fails [of items _ "[]"] List_loop_filters [of items _ "[]"]
  by (simp add: List_def)

text \<open>
  With a master record that fails to unmarshal, listing the workers fails; with records that
  all decode, the two workers are listed in scan order.
\<close>

theorem List_all_or_nothing_witness:
  "Scan (crd (ex_manager_scanning ex_items_bad)) nodeNs = Inr ex_items_bad \<and>
   isl (Unmarshal (hd ex_items_bad)) \<and>
   isl (List (ex_manager_scanning ex_items_bad) Worker) \<and>
   Scan (crd (ex_manager_scanning ex_items_ok)) nodeNs = Inr ex_items_ok \<and>
   List (ex_manager_scanning ex_items_ok) Worker = Inr [ex_node1, ex_node3]"
proof -
  have bad: "Scan (crd (ex_manager_scanning ex_items_bad)) nodeNs = Inr ex_items_bad"
    by (simp add: ex_manager_scanning_def)
  have ok: "Scan (crd (ex_manager_scanning ex_items_ok)) nodeNs = Inr ex_items_ok"
    by (simp add: ex_manager_scanning_def)
  have fails: "isl (Unmarshal (hd ex_items_bad))"
    by (simp add: ex_items_bad_def)
  then have "\<exists>item\<in>set ex_items_bad. isl (Unmarshal item)"
    by (simp add: ex_items_bad_def)
  with List_all_or_nothing [OF bad, of Worker]
  have 1: "isl (List (ex_manager_scanning ex_items_bad) Worker)"
    by auto
  have "\<forall>item\<in>set ex_items_ok. \<not> isl (Unmarshal item)"
    by (simp add: ex_items_ok_def)
  with List_all_or_nothing [OF ok, of Worker]
  have "List (ex_manager_scanning ex_items_ok) Worker =
          Inr (filter (\<lambda>n. Type n = Worker) (scanned_nodes ex_items_ok))"
    by blast
  moreover have "filter (\<lambda>n. Type n = Worker) (scanned_nodes ex_items_ok) = [ex_node1, ex_node3]"
    by (simp add: scanned_nodes_def ex_items_ok_def List.map_filter_simps
        ex_node1_def ex_node2_def ex_node3_def)
  ultimately show ?thesis using bad ok fails 1 by simp
qed

subsection \<open>UnregisterNode\<close>

text \<open>
  Claim C9 (amended). Before \<open>RegisterSelf\<close> has succeeded the self node is nil. Then
  \<open>UnregisterNode\<close>, with any node ID, panics on the nil self node once the coordinator's
  delete has succeeded; when the delete fails it returns that failure as an error, and does
  not panic.
\<close>

theorem UnregisterNode_before_RegisterSelf:
  assumes "self m = None"
  shows "UnregisterNode m nid =
           (case Delete (crd m) (path_Join [nodeNs, nid]) of
              Inl err \<Rightarrow> Return (Some (New (''failed to remove from etcd: '' @ Error err)), m)
            | Inr deleted \<Rightarrow> Panic)"
  using assms by (simp add: UnregisterNode_def split: sum.splits)

theorem UnregisterNode_before_RegisterSelf_witness:
  "self ex_manager = None \<and> UnregisterNode ex_manager ''N1'' = Panic"
  using UnregisterNode_before_RegisterSelf [of ex_manager "''N1''"]
  by (simp add: ex_manager_def ex_crd_def)

text \<open>
  The claim as first stated (a panic in every case) fails when the coordinator is
  unreachable: the call returns an error.
\<close>

theorem UnregisterNode_delete_fails_counterexample:
  "self ex_manager_down = None \<and>
   UnregisterNode ex_manager_down ''N1'' =
     Return (Some (New ''failed to remove from etcd: etcd unavailable''), ex_manager_down) \<and>
   UnregisterNode ex_manager_down ''N1'' \<noteq> Panic"
  by (simp add: UnregisterNode_def ex_manager_down_def ex_crd_down_def)

subsection \<open>Close\<close>

lemma Close_Range_all_ok:
  "\<forall>kv\<in>set cs. close_err (snd kv) = None \<Longrightarrow> Close_Range cs None = (None, map called cs)"
  by (induction cs) (auto simp: ClientConn_Close_def called_def)

lemma Close_Range_first_fail:
  assumes "\<forall>kv\<in>set pre. close_err (snd kv) = None" and "close_err (snd kv) \<noteq> None"
  shows "Close_Range (pre @ kv # post) None =
           (close_err (snd kv), map called pre @ called kv # post)"
  using assms
proof (induction pre)
  case Nil
  then show ?case by (cases kv) (auto simp: ClientConn_Close_def called_def)
next
  case (Cons p pre)
  then show ?case by (cases p) (auto simp: ClientConn_Close_def called_def)
qed

text \<open>
  Claim C7 (amended). When no close fails, \<open>Close\<close> calls close on every cached channel and
  returns nil. When one fails, \<open>Close\<close> has called close on the channels up to and including
  the first failing one, returns the error of that one, and leaves the channels after it as
  they were.
\<close>

theorem Close_until_first_error:
  "((\<forall>kv\<in>set (conns m). close_err (snd kv) = None) \<longrightarrow>
      Close m = (None, m\<lparr>conns := map called (conns m)\<rparr>)) \<and>
   (conns m = pre @ kv # post \<and> (\<forall>kv'\<in>set pre. close_err (snd kv') = None) \<and>
    close_err (snd kv) \<noteq> None \<longrightarrow>
      Close m = (close_err (snd kv), m\<lparr>conns := map called pre @ called kv # post\<rparr>))"
  by (auto simp: Close_def Close_Range_all_ok Close_Range_first_fail)

theorem Close_until_first_error_witness:
  "Close ex_manager_conns_ok =
     (None, ex_manager_conns_ok\<lparr>conns := [(''10.0.0.2:7000'', ex_conn_ok\<lparr>close_called := True\<rparr>),
                                           (''10.0.0.3:7000'', ex_conn_ok\<lparr>close_called := True\<rparr>)]\<rparr>) \<and>
   Close ex_manager_conns =
     (Some (New ''grpc: the client connection is closing''),
      ex_manager_conns\<lparr>conns := [(''10.0.0.2:7000'', ex_conn_bad\<lparr>close_called := True\<rparr>),
                                 (''10.0.0.3:7000'', ex_conn_ok)]\<rparr>)"
  using Close_until_first_error [of ex_manager_conns_ok "[]" "(''x'', ex_conn_bad)" "[]"]
        Close_until_first_error [of ex_manager_conns "[]" "(''10.0.0.2:7000'', ex_conn_bad)"
                                    "[(''10.0.0.3:7000'', ex_conn_ok)]"]
  by (simp add: ex_manager_conns_ok_def ex_manager_conns_def ex_manager_def called_def
      ex_conn_ok_def ex_conn_bad_def)

text \<open>
  The claim as first stated (every cached channel is closed) fails when the first channel
  visited fails to close: the second one is never closed.
\<close>

theorem Close_skips_later_channels_counterexample:
  "fst (Close ex_manager_conns) = Some (New ''grpc: the client connection is closing'') \<and>
   conns (snd (Close ex_manager_conns)) =
     [(''10.0.0.2:7000'', ex_conn_bad\<lparr>close_called := True\<rparr>), (''10.0.0.3:7000'', ex_conn_ok)] \<and>
   close_called ex_conn_ok = False"
  by (simp add: Close_def ex_manager_conns_def ex_manager_def ClientConn_Close_def
      ex_conn_bad_def ex_conn_ok_def)

section \<open>Properties of the worker\<close>

subsection \<open>Start\<close>

text \<open>
  Claim C5. When \<open>Start\<close> has its listener and the coordinator accepts the registration, the
  node record it registers (and keeps as the self node) is a worker whose host is the
  configured \<open>AdvertisedHost\<close> followed by the port of the listener when \<open>AdvertisedHost\<close>
  ends in \<open>:\<close>, and the configured \<open>AdvertisedHost\<close> unchanged otherwise.
\<close>

theorem Start_registers_advertised_host:
  assumes "Listen_result x (ListenHost (opt w)) = Inr lis"
    and "GrantLease (crd (nodeManager w)) = Inr ttl"
    and "Put (crd (nodeManager w)) (path_Join [nodeNs, GenerateID x]) = None"
  shows "\<exists>n. records (crd (nodeManager (snd (Start x w)))) =
               (path_Join [nodeNs, GenerateID x], n, ttl) # records (crd (nodeManager w)) \<and>
             self (nodeManager (snd (Start x w))) = Some n \<and>
             Type n = Worker \<and>
             Host n = (if HasSuffix (AdvertisedHost (opt w)) '':''
                       then AdvertisedHost (opt w) @ Itoa (Port lis)
                       else AdvertisedHost (opt w))"
  using assms
  by (simp add: Start_def Let_def RegisterSelf_def registerOrRefresh_def crd_Put_def
      node_New_def last_Split_Addr)

text \<open>
  Listening on port 54321, the worker advertised as \<open>worker-1:\<close> registers the host
  \<open>worker-1:54321\<close>, and the worker advertised as \<open>worker-1:7000\<close> registers that.
\<close>

theorem Start_registers_advertised_host_witness:
  "Listen_result ex_externals (ListenHost (opt ex_worker_new)) =
     Inr \<lparr>IP = ''0.0.0.0'', Port = 54321\<rparr> \<and>
   HasSuffix (AdvertisedHost (opt ex_worker_new)) '':'' \<and>
   map_option Host (self (nodeManager (snd (Start ex_externals ex_worker_new)))) =
     Some ''worker-1:54321'' \<and>
   map_option Host (self (nodeManager (snd (Start ex_externals ex_worker_fixed_port)))) =
     Some ''worker-1:7000''"
proof -
  have l: "Listen_result ex_externals (ListenHost (opt ex_worker_new)) =
             Inr \<lparr>IP = ''0.0.0.0'', Port = 54321\<rparr>"
    by (simp add: ex_externals_def)
  have g: "GrantLease (crd (nodeManager ex_worker_new)) = Inr 7"
    by (simp add: ex_worker_new_def ex_manager_def ex_crd_def)
  have p: "Put (crd (nodeManager ex_worker_new)) (path_Join [nodeNs, GenerateID ex_externals]) = None"
    by (simp add: ex_worker_new_def ex_manager_def ex_crd_def)
  have s: "HasSuffix (AdvertisedHost (opt ex_worker_new)) '':''"
    by (simp add: ex_worker_new_def ex_opt_def HasSuffix_def)
  have i: "Itoa 54321 = ''54321''"
    by (simp add: Itoa.simps)
  have a: "AdvertisedHost (opt ex_worker_new) = ''worker-1:''"
    by (simp add: ex_worker_new_def ex_opt_def)
  from Start_registers_advertised_host [OF l g p] obtain n where
    "self (nodeManager (snd (Start ex_externals ex_worker_new))) = Some n"
    and "Host n = AdvertisedHost (opt ex_worker_new) @ Itoa 54321"
    using s by auto
  then have 1: "map_option Host (self (nodeManager (snd (Start ex_externals ex_worker_new)))) =
               Some ''worker-1:54321''"
    using i a by simp
  have l': "Listen_result ex_externals (ListenHost (opt ex_worker_fixed_port)) =
             Inr \<lparr>IP = ''0.0.0.0'', Port = 54321\<rparr>"
    by (simp add: ex_externals_def)
  have g': "GrantLease (crd (nodeManager ex_worker_fixed_port)) = Inr 7"
    by (simp add: ex_worker_fixed_port_def ex_worker_new_def ex_manager_def ex_crd_def)
  have p': "Put (crd (nodeManager ex_worker_fixed_port))
              (path_Join [nodeNs, GenerateID ex_externals]) = None"
    by (simp add: ex_worker_fixed_port_def ex_worker_new_def ex_manager_def ex_crd_def)
  have s': "\<not> HasSuffix (AdvertisedHost (opt ex_worker_fixed_port)) '':''"
    by (simp add: ex_worker_fixed_port_def HasSuffix_def)
  have a': "AdvertisedHost (opt ex_worker_fixed_port) = ''worker-1:7000''"
    by (simp add: ex_worker_fixed_port_def)
  from Start_registers_advertised_host [OF l' g' p'] obtain n' where
    "self (nodeManager (snd (Start ex_externals ex_worker_fixed_port))) = Some n'"
    and "Host n' = AdvertisedHost (opt ex_worker_fixed_port)"
    using s' by auto
  then have 2: "map_option Host (self (nodeManager (snd (Start ex_externals ex_worker_fixed_port)))) =
               Some ''worker-1:7000''"
    using a' by simp
  from l s 1 2 show ?thesis by simp
qed

subsection \<open>PushData\<close>

lemma terminal_WaitForFinish: "WaitForFinish e = Some e' \<Longrightarrow> terminal (state e')"
  by (auto simp: WaitForFinish_def terminal_def split: if_splits Function.splits)

text \<open>
  Claim C1. For a push stream whose header names a registered task, whenever \<open>PushData\<close>
  returns, the entry of that task has left the registry of running tasks. When it returns
  success (the empty acknowledgement), the dispatch of the stream has ended without error,
  \<open>WaitForFinish\<close> has returned on the executor that was registered, which is left as the
  wait found it, in a terminal state (it was terminal already, or its function has returned),
  and \<open>SendAndClose\<close> has succeeded after that: for an executor that never finishes there
  is no acknowledgement.
\<close>

theorem PushData_ack_after_terminal:
  assumes "header stream = Inr h"
    and "runningTasks w (TaskID h) = Some exec"
    and "PushData w stream = Some (res, w')"
  shows "runningTasks w' (TaskID h) = None \<and>
         (res = None \<longrightarrow>
            fst (Dispatch (readers w (Input (executors w exec))) (frames stream)) = None \<and>
            WaitForFinish (executors w exec) = Some (executors w' exec) \<and>
            (terminal (state (executors w exec)) \<or> fn (executors w exec) \<noteq> NeverReturns) \<and>
            terminal (state (executors w' exec)) \<and> SendAndClose_result stream = None)"
proof -
  let ?d = "Dispatch (readers w (Input (executors w exec))) (frames stream)"
  have removed: "runningTasks w' (TaskID h) = None"
    using assms
    by (auto simp: PushData_def getRunningTask_def delete_runningTask_def Let_def
        split: prod.splits option.splits)
  have ack: "fst ?d = None \<and> WaitForFinish (executors w exec) = Some (executors w' exec) \<and>
             SendAndClose_result stream = None"
    if "res = None"
    using assms that
    by (cases ?d; cases "fst ?d"; cases "WaitForFinish (executors w exec)")
       (auto simp: PushData_def getRunningTask_def delete_runningTask_def Let_def)
  have "terminal (state (executors w' exec)) \<and>
        (terminal (state (executors w exec)) \<or> fn (executors w exec) \<noteq> NeverReturns)"
    if "res = None"
  proof -
    from ack [OF that] have wf: "WaitForFinish (executors w exec) = Some (executors w' exec)"
      by simp
    from terminal_WaitForFinish [OF wf] have "terminal (state (executors w' exec))" .
    moreover have "terminal (state (executors w exec)) \<or> fn (executors w exec) \<noteq> NeverReturns"
      using wf by (auto simp: WaitForFinish_def split: if_splits)
    ultimately show ?thesis by simp
  qed
  with removed ack show ?thesis by blast
qed

theorem PushData_ack_after_terminal_witness:
  "header ex_stream = Inr \<lparr>TaskID = ''J1/reduce/0'', FromHost = ''10.0.0.2:7000''\<rparr> \<and>
   runningTasks ex_worker ''J1/reduce/0'' = Some 1 \<and>
   (case PushData ex_worker ex_stream of
      None \<Rightarrow> False
    | Some (res, w') \<Rightarrow>
        res = None \<and> runningTasks w' ''J1/reduce/0'' = None \<and>
        WaitForFinish (executors ex_worker 1) = Some (executors w' 1) \<and>
        state (executors w' 1) = Succeeded \<and>
        queue (readers w' 0) = [''a'', ''b'', ''c''])"
proof -
  have h: "header ex_stream = Inr \<lparr>TaskID = ''J1/reduce/0'', FromHost = ''10.0.0.2:7000''\<rparr>"
    by (simp add: ex_stream_def)
  have r: "runningTasks ex_worker (TaskID \<lparr>TaskID = ''J1/reduce/0'', FromHost = ''10.0.0.2:7000''\<rparr>) = Some 1"
    by (simp add: ex_worker_def)
  obtain res w' where p: "PushData ex_worker ex_stream = Some (res, w')"
    and res: "res = None" and q: "queue (readers w' 0) = [''a'', ''b'', ''c'']"
    and s: "state (executors w' 1) = Succeeded"
    by (simp add: PushData_def ex_stream_def ex_worker_def getRunningTask_def Let_def
        ex_exec_def NewReader_def WaitForFinish_def terminal_def delete_runningTask_def)
  from PushData_ack_after_terminal [OF h r p] res
  have "runningTasks w' ''J1/reduce/0'' = None" and "terminal (state (executors w' 1))"
    and "WaitForFinish (executors ex_worker 1) = Some (executors w' 1)"
    by simp_all
  with h r p res q s show ?thesis by simp
qed

text \<open>
  \<open>PushData\<close> does return for a registered task, unless the user function of the executor
  never returns.
\<close>

lemma PushData_returns:
  assumes "header stream = Inr h"
    and "runningTasks w (TaskID h) = Some exec"
    and "fn (executors w exec) \<noteq> NeverReturns"
  shows "\<exists>res w'. PushData w stream = Some (res, w')"
  using assms
  by (auto simp: PushData_def getRunningTask_def Let_def WaitForFinish_def
      split: prod.splits option.splits Function.splits)

text \<open>
  When the stream ends well and the executor is not terminal and its user function never
  returns, \<open>PushData\<close> never returns: there is no acknowledgement.
\<close>

lemma PushData_never_returns:
  assumes "header stream = Inr h"
    and "runningTasks w (TaskID h) = Some exec"
    and "fst (Dispatch (readers w (Input (executors w exec))) (frames stream)) = None"
    and "\<not> terminal (state (executors w exec))"
    and "fn (executors w exec) = NeverReturns"
  shows "PushData w stream = None"
  using assms
  by (cases "Dispatch (readers w (Input (executors w exec))) (frames stream)")
     (simp add: PushData_def getRunningTask_def Let_def WaitForFinish_def)

text \<open>
  Claim C2. For a push stream whose header names a task that is not in the registry of
  running tasks, \<open>PushData\<close> fails with a status of code \<open>InvalidArgument\<close> and returns the
  worker as it was: no registry entry added or removed, no row enqueued.
\<close>

theorem PushData_absent_task:
  assumes "header stream = Inr h" and "runningTasks w (TaskID h) = None"
  shows "PushData w stream =
           Some (Some (Status InvalidArgument (''task not found: '' @ TaskID h)), w) \<and>
         status_code (Status InvalidArgument (''task not found: '' @ TaskID h)) =
           Some InvalidArgument"
  using assms by (simp add: PushData_def getRunningTask_def)

theorem PushData_absent_task_witness:
  "header ex_stream_absent = Inr \<lparr>TaskID = ''J1/reduce/7'', FromHost = ''10.0.0.2:7000''\<rparr> \<and>
   runningTasks ex_worker ''J1/reduce/7'' = None \<and>
   PushData ex_worker ex_stream_absent =
     Some (Some (Status InvalidArgument ''task not found: J1/reduce/7''), ex_worker)"
proof -
  have h: "header ex_stream_absent =
             Inr \<lparr>TaskID = ''J1/reduce/7'', FromHost = ''10.0.0.2:7000''\<rparr>"
    by (simp add: ex_stream_absent_def)
  have r: "runningTasks ex_worker
             (TaskID \<lparr>TaskID = ''J1/reduce/7'', FromHost = ''10.0.0.2:7000''\<rparr>) = None"
    by (simp add: ex_worker_def)
  from PushData_absent_task [OF h r] h r show ?thesis by simp
qed

text \<open>
  Claim C8. When \<open>PushData\<close> finds the executor in the registry and the dispatch of the
  stream's batches returns an error, \<open>PushData\<close> returns that error with the entry of the
  task removed from the registry, so that a second push for the same task reference fails
  with \<open>InvalidArgument\<close>, task not found.
\<close>

theorem PushData_dispatch_error_removes_task:
  assumes "header stream = Inr h"
    and "runningTasks w (TaskID h) = Some exec"
    and "Dispatch (readers w (Input (executors w exec))) (frames stream) = (Some err, r)"
    and "header retry = Inr h'"
    and "TaskID h' = TaskID h"
  shows "\<exists>w'. PushData w stream = Some (Some err, w') \<and>
              runningTasks w' (TaskID h) = None \<and>
              PushData w' retry =
                Some (Some (Status InvalidArgument (''task not found: '' @ TaskID h)), w')"
  using assms
  by (simp add: PushData_def getRunningTask_def delete_runningTask_def Let_def)

theorem PushData_dispatch_error_removes_task_witness:
  "Dispatch (readers ex_worker (Input (executors ex_worker 1))) (frames ex_stream_broken) =
     (Some (New ''connection reset''), \<lparr>queue = [''a'', ''b''], QueueLength = 1000\<rparr>) \<and>
   (case PushData ex_worker ex_stream_broken of
      None \<Rightarrow> False
    | Some (res, w') \<Rightarrow>
        res = Some (New ''connection reset'') \<and> runningTasks w' ''J1/reduce/0'' = None \<and>
        PushData w' ex_stream =
          Some (Some (Status InvalidArgument ''task not found: J1/reduce/0''), w'))"
proof -
  have h: "header ex_stream_broken =
             Inr \<lparr>TaskID = ''J1/reduce/0'', FromHost = ''10.0.0.2:7000''\<rparr>"
    by (simp add: ex_stream_broken_def)
  have h': "header ex_stream = Inr \<lparr>TaskID = ''J1/reduce/0'', FromHost = ''10.0.0.2:7000''\<rparr>"
    by (simp add: ex_stream_def)
  have r: "runningTasks ex_worker
             (TaskID \<lparr>TaskID = ''J1/reduce/0'', FromHost = ''10.0.0.2:7000''\<rparr>) = Some 1"
    by (simp add: ex_worker_def)
  have d: "Dispatch (readers ex_worker (Input (executors ex_worker 1))) (frames ex_stream_broken) =
     (Some (New ''connection reset''), \<lparr>queue = [''a'', ''b''], QueueLength = 1000\<rparr>)"
    by (simp add: ex_worker_def ex_exec_def ex_stream_broken_def NewReader_def)
  from PushData_dispatch_error_removes_task [OF h r d h' refl] d show ?thesis
    by auto
qed

subsection \<open>newOutputWriter\<close>

lemma newOutputWriter_loop_keeps:
  assumes "newOutputWriter_loop x w jobID cur entries m = Return (Inr m')"
    and "pid \<notin> fst ` set entries"
  shows "m' pid = m pid"
  using assms
proof (induction entries arbitrary: m)
  case Nil
  then show ?case by simp
next
  case (Cons e entries)
  obtain k host where e: "e = (k, host)" by (cases e)
  with Cons.prems have k: "k \<noteq> pid" and rest: "pid \<notin> fst ` set entries" by auto
  from Cons.prems(1) e obtain m1 where
    "newOutputWriter_loop x w jobID cur entries m1 = Return (Inr m')" and "m1 pid = m pid"
    using k
    by (auto simp: Let_def split: option.splits sum.splits if_splits)
  with Cons.IH [OF _ rest] show ?case by simp
qed

lemma newOutputWriter_loop_maps:
  "newOutputWriter_loop x w jobID cur entries m = Return (Inr m') \<Longrightarrow>
              distinct (map fst entries) \<Longrightarrow> (pid, host) \<in> set entries \<Longrightarrow>
              \<exists>sn. Self (nodeManager w) = Some sn \<and>
           (case (if host = Host sn
                  then runningTasks w (path_Join [jobID, Stage (Output cur), pid])
                  else None) of
              Some t \<Rightarrow> m' pid = Some (LocalPipe (Input (executors w t)))
            | None \<Rightarrow>
                (\<exists>ps. NewPushStream_result x host (path_Join [jobID, Stage (Output cur), pid]) = Inr ps \<and>
                      m' pid = Some (BufferedOutput ps (Output_BufferLength (opt w)))))"
proof (induction entries arbitrary: m)
  case Nil
  then show ?case by simp
next
  case (Cons e entries)
  obtain k h where e: "e = (k, h)" by (cases e)
  from Cons.prems(1) e obtain sn where sn: "Self (nodeManager w) = Some sn"
    by (auto simp: Let_def split: option.splits)
  let ?taskID = "path_Join [jobID, Stage (Output cur), k]"
  have "\<exists>m1. newOutputWriter_loop x w jobID cur entries m1 = Return (Inr m') \<and>
          (case (if h = Host sn then runningTasks w ?taskID else None) of
             Some t \<Rightarrow> m1 = m(k \<mapsto> LocalPipe (Input (executors w t)))
           | None \<Rightarrow>
               (\<exists>ps. NewPushStream_result x h ?taskID = Inr ps \<and>
                     m1 = m(k \<mapsto> BufferedOutput ps (Output_BufferLength (opt w)))))"
    using Cons.prems(1) e sn
    by (cases "h = Host sn"; cases "runningTasks w ?taskID";
        cases "NewPushStream_result x h ?taskID")
       (simp_all add: Let_def getRunningTask_def)
  then obtain m1 where
    m1: "newOutputWriter_loop x w jobID cur entries m1 = Return (Inr m')"
    and step: "(case (if h = Host sn then runningTasks w ?taskID else None) of
            Some t \<Rightarrow> m1 = m(k \<mapsto> LocalPipe (Input (executors w t)))
          | None \<Rightarrow>
              (\<exists>ps. NewPushStream_result x h ?taskID = Inr ps \<and>
                    m1 = m(k \<mapsto> BufferedOutput ps (Output_BufferLength (opt w)))))"
    by blast
  show ?case
  proof (cases "(pid, host) = (k, h)")
    case True
    with Cons.prems(2) e have "pid \<notin> fst ` set entries" by auto
    from newOutputWriter_loop_keeps [OF m1 this] have "m' pid = m1 pid" .
    with True step sn show ?thesis
      by (auto split: option.splits if_splits)
  next
    case False
    with Cons.prems(3) e have "(pid, host) \<in> set entries" by auto
    moreover from Cons.prems(2) have "distinct (map fst entries)" by simp
    ultimately show ?thesis using Cons.IH [OF m1] by blast
  qed
qed

lemma newOutputWriter_loop_returns:
  assumes "Self (nodeManager w) = Some sn"
    and "\<forall>(pid, host)\<in>set entries.
           (host = Host sn \<and> runningTasks w (path_Join [jobID, Stage (Output cur), pid]) \<noteq> None) \<or>
           \<not> isl (NewPushStream_result x host (path_Join [jobID, Stage (Output cur), pid]))"
  shows "\<exists>m'. newOutputWriter_loop x w jobID cur entries m = Return (Inr m')"
  using assms(2)
proof (induction entries arbitrary: m)
  case Nil
  then show ?case by simp
next
  case (Cons e entries)
  obtain k h where e: "e = (k, h)" by (cases e)
  let ?taskID = "path_Join [jobID, Stage (Output cur), k]"
  from Cons.prems e have
    head: "(h = Host sn \<and> runningTasks w ?taskID \<noteq> None) \<or>
           \<not> isl (NewPushStream_result x h ?taskID)"
    and rest: "\<forall>(pid, host)\<in>set entries.
           (host = Host sn \<and> runningTasks w (path_Join [jobID, Stage (Output cur), pid]) \<noteq> None) \<or>
           \<not> isl (NewPushStream_result x host (path_Join [jobID, Stage (Output cur), pid]))"
    by auto
  have "\<exists>m1. newOutputWriter_loop x w jobID cur (e # entries) m =
               newOutputWriter_loop x w jobID cur entries m1"
    using head e assms(1)
    by (cases "h = Host sn"; cases "runningTasks w ?taskID";
        cases "NewPushStream_result x h ?taskID")
       (auto simp: Let_def getRunningTask_def)
  then show ?case using Cons.IH [OF rest] by metis
qed

lemma newOutputWriter_loop_returned:
  assumes "newOutputWriter_loop x w jobID cur entries m = Return (Inr m')"
    and "(pid, host) \<in> set entries"
  shows "\<exists>sn. Self (nodeManager w) = Some sn \<and>
           ((host = Host sn \<and> runningTasks w (path_Join [jobID, Stage (Output cur), pid]) \<noteq> None) \<or>
            \<not> isl (NewPushStream_result x host (path_Join [jobID, Stage (Output cur), pid])))"
  using assms
proof (induction entries arbitrary: m)
  case Nil
  then show ?case by simp
next
  case (Cons e entries)
  obtain k h where e: "e = (k, h)" by (cases e)
  let ?taskID = "path_Join [jobID, Stage (Output cur), k]"
  from Cons.prems(1) e obtain sn where sn: "Self (nodeManager w) = Some sn"
    by (auto simp: Let_def split: option.splits)
  have step: "((h = Host sn \<and> runningTasks w ?taskID \<noteq> None) \<or>
               \<not> isl (NewPushStream_result x h ?taskID)) \<and>
              (\<exists>m1. newOutputWriter_loop x w jobID cur entries m1 = Return (Inr m'))"
    using Cons.prems(1) e sn
    by (cases "h = Host sn"; cases "runningTasks w ?taskID";
        cases "NewPushStream_result x h ?taskID")
       (auto simp: Let_def getRunningTask_def)
  show ?case
  proof (cases "(pid, host) = (k, h)")
    case True
    with step sn show ?thesis by auto
  next
    case False
    with Cons.prems(2) e have "(pid, host) \<in> set entries" by auto
    with step Cons.IH show ?thesis by blast
  qed
qed

text \<open>
  Claim C4. \<open>newOutputWriter\<close> returns a writer exactly when the partition map is empty, or
  the worker has its own node and, for every entry that is not served locally, the push
  stream to its host opens. For every writer it returns and every entry
  \<open>(partitionID, host)\<close> of the partition map (a map: its keys are distinct), the writer maps
  \<open>partitionID\<close> to a local pipe into the input of the downstream executor when \<open>host\<close> is
  the host of the worker's own node and the downstream task is in the registry of running
  tasks, and otherwise to a buffered output of capacity \<open>Output.BufferLength\<close> around the
  push stream opened to \<open>host\<close> for that task; it maps no other partition ID.
\<close>

theorem newOutputWriter_local_or_remote:
  assumes "distinct (map fst (PartitionToHost out))"
  shows "((\<exists>wr. newOutputWriter x w c jobID cur out = Return (Inr wr)) \<longleftrightarrow>
            PartitionToHost out = [] \<or>
            (\<exists>sn. Self (nodeManager w) = Some sn \<and>
               (\<forall>(pid, host)\<in>set (PartitionToHost out).
                  (host = Host sn \<and>
                   runningTasks w (path_Join [jobID, Stage (Output cur), pid]) \<noteq> None) \<or>
                  \<not> isl (NewPushStream_result x host
                           (path_Join [jobID, Stage (Output cur), pid]))))) \<and>
         (\<forall>wr pid host.
            newOutputWriter x w c jobID cur out = Return (Inr wr) \<and>
            (pid, host) \<in> set (PartitionToHost out) \<longrightarrow>
            (\<exists>sn. Self (nodeManager w) = Some sn \<and>
               (case (if host = Host sn
                      then runningTasks w (path_Join [jobID, Stage (Output cur), pid])
                      else None) of
                  Some t \<Rightarrow> outputs wr pid = Some (LocalPipe (Input (executors w t)))
                | None \<Rightarrow>
                    (\<exists>ps. NewPushStream_result x host
                             (path_Join [jobID, Stage (Output cur), pid]) = Inr ps \<and>
                          outputs wr pid =
                            Some (BufferedOutput ps (Output_BufferLength (opt w))))))) \<and>
         (\<forall>wr pid.
            newOutputWriter x w c jobID cur out = Return (Inr wr) \<and>
            pid \<notin> fst ` set (PartitionToHost out) \<longrightarrow>
            outputs wr pid = None)"
proof -
  let ?loop = "newOutputWriter_loop x w jobID cur (PartitionToHost out) Map.empty"
  have wr: "newOutputWriter x w c jobID cur out = Return (Inr wr) \<longleftrightarrow>
            (\<exists>m'. ?loop = Return (Inr m') \<and>
                  wr = \<lparr>partitioner = Partitioner (Output cur), outputs = m'\<rparr>)" for wr
    by (cases ?loop) (auto simp: newOutputWriter_def split: sum.splits)
  have produced: "(\<exists>wr. newOutputWriter x w c jobID cur out = Return (Inr wr)) \<longleftrightarrow>
            PartitionToHost out = [] \<or>
            (\<exists>sn. Self (nodeManager w) = Some sn \<and>
               (\<forall>(pid, host)\<in>set (PartitionToHost out).
                  (host = Host sn \<and>
                   runningTasks w (path_Join [jobID, Stage (Output cur), pid]) \<noteq> None) \<or>
                  \<not> isl (NewPushStream_result x host
                           (path_Join [jobID, Stage (Output cur), pid]))))"
    (is "?lhs \<longleftrightarrow> ?empty \<or> ?all")
  proof
    assume ?lhs
    then obtain m' where m': "?loop = Return (Inr m')" using wr by blast
    show "?empty \<or> ?all"
    proof (cases "PartitionToHost out")
      case Nil
      then show ?thesis by simp
    next
      case (Cons e es)
      then obtain k h where "(k, h) \<in> set (PartitionToHost out)" by (cases e) auto
      from newOutputWriter_loop_returned [OF m' this] obtain sn where
        sn: "Self (nodeManager w) = Some sn" by blast
      have "\<forall>(pid, host)\<in>set (PartitionToHost out).
                  (host = Host sn \<and>
                   runningTasks w (path_Join [jobID, Stage (Output cur), pid]) \<noteq> None) \<or>
                  \<not> isl (NewPushStream_result x host
                           (path_Join [jobID, Stage (Output cur), pid]))"
        using newOutputWriter_loop_returned [OF m'] sn by fastforce
      with sn show ?thesis by blast
    qed
  next
    assume "?empty \<or> ?all"
    then have "\<exists>m'. ?loop = Return (Inr m')"
    proof
      assume ?empty
      then show ?thesis by simp
    next
      assume ?all
      then show ?thesis using newOutputWriter_loop_returns by blast
    qed
    then show ?lhs using wr by blast
  qed
  have maps: "\<exists>sn. Self (nodeManager w) = Some sn \<and>
               (case (if host = Host sn
                      then runningTasks w (path_Join [jobID, Stage (Output cur), pid])
                      else None) of
                  Some t \<Rightarrow> outputs wr pid = Some (LocalPipe (Input (executors w t)))
                | None \<Rightarrow>
                    (\<exists>ps. NewPushStream_result x host
                             (path_Join [jobID, Stage (Output cur), pid]) = Inr ps \<and>
                          outputs wr pid =
                            Some (BufferedOutput ps (Output_BufferLength (opt w)))))"
    if "newOutputWriter x w c jobID cur out = Return (Inr wr)"
      and "(pid, host) \<in> set (PartitionToHost out)" for wr pid host
  proof -
    from that(1) obtain m' where "?loop = Return (Inr m')" and "outputs wr = m'"
      using wr by auto
    with newOutputWriter_loop_maps [OF _ assms that(2)] show ?thesis by auto
  qed
  have others: "outputs wr pid = None"
    if "newOutputWriter x w c jobID cur out = Return (Inr wr)"
      and "pid \<notin> fst ` set (PartitionToHost out)" for wr pid
  proof -
    from that(1) obtain m' where "?loop = Return (Inr m')" and "outputs wr = m'"
      using wr by auto
    with newOutputWriter_loop_keeps [OF _ that(2)] show ?thesis by auto
  qed
  from produced maps others show ?thesis by blast
qed

lemma ex_paths:
  "path_Join [''J1'', ''reduce'', ''0''] = ''J1/reduce/0''"
  "path_Join [''J1'', ''reduce'', ''1''] = ''J1/reduce/1''"
  by code_simp+

text \<open>
  The example request has one partition served locally (its downstream task runs on this
  worker) and one served by another host: a writer is returned, with a local pipe for the
  first and a buffered push stream for the second.
\<close>

theorem newOutputWriter_local_or_remote_witness:
  "distinct (map fst (PartitionToHost (req_Output ex_req))) \<and>
   newOutputWriter ex_externals ex_worker (newTaskContext ex_task []) ''J1'' ex_stage
     (req_Output ex_req) = Return (Inr ex_writer) \<and>
   outputs ex_writer ''0'' = Some (LocalPipe 0) \<and>
   outputs ex_writer ''1'' =
     Some (BufferedOutput \<lparr>to_host = ''10.0.0.2:7000'', to_task = ''J1/reduce/1''\<rparr> 500) \<and>
   outputs ex_writer ''2'' = None"
proof -
  have d: "distinct (map fst (PartitionToHost (req_Output ex_req)))"
    by (simp add: ex_req_def)
  note T = newOutputWriter_local_or_remote [OF d, where x = ex_externals and w = ex_worker
      and c = "newTaskContext ex_task []" and jobID = "''J1''" and cur = ex_stage]
  have s: "Self (nodeManager ex_worker) = Some ex_node1"
    by (simp add: Self_def ex_worker_def ex_manager_registered_def)
  have "\<forall>(pid, host)\<in>set (PartitionToHost (req_Output ex_req)).
          (host = Host ex_node1 \<and>
           runningTasks ex_worker (path_Join [''J1'', Stage (Output ex_stage), pid]) \<noteq> None) \<or>
          \<not> isl (NewPushStream_result ex_externals host
                   (path_Join [''J1'', Stage (Output ex_stage), pid]))"
    by (simp add: ex_req_def ex_node1_def ex_worker_def ex_stage_def ex_externals_def ex_paths)
  with s T have "\<exists>wr. newOutputWriter ex_externals ex_worker (newTaskContext ex_task []) ''J1''
                         ex_stage (req_Output ex_req) = Return (Inr wr)"
    by blast
  have n: "newOutputWriter ex_externals ex_worker (newTaskContext ex_task []) ''J1'' ex_stage
     (req_Output ex_req) = Return (Inr ex_writer)"
    by (simp add: newOutputWriter_def ex_req_def ex_stage_def ex_worker_def
        ex_manager_registered_def ex_node1_def ex_externals_def ex_opt_def ex_exec_def
        Self_def getRunningTask_def Let_def ex_paths ex_writer_def)
  have m0: "(''0'', ''10.0.0.1:7000'') \<in> set (PartitionToHost (req_Output ex_req))"
    and m1: "(''1'', ''10.0.0.2:7000'') \<in> set (PartitionToHost (req_Output ex_req))"
    and m2: "''2'' \<notin> fst ` set (PartitionToHost (req_Output ex_req))"
    by (simp_all add: ex_req_def)
  from T n m0 obtain sn0 where
    s0: "Self (nodeManager ex_worker) = Some sn0" and
    c0: "(case (if ''10.0.0.1:7000'' = Host sn0
            then runningTasks ex_worker (path_Join [''J1'', Stage (Output ex_stage), ''0''])
            else None) of
        Some t \<Rightarrow> outputs ex_writer ''0'' = Some (LocalPipe (Input (executors ex_worker t)))
      | None \<Rightarrow>
          (\<exists>ps. NewPushStream_result ex_externals ''10.0.0.1:7000''
                   (path_Join [''J1'', Stage (Output ex_stage), ''0'']) = Inr ps \<and>
                outputs ex_writer ''0'' =
                  Some (BufferedOutput ps (Output_BufferLength (opt ex_worker)))))"
    by blast
  from s s0 have "sn0 = ex_node1" by simp
  with c0 have o0: "outputs ex_writer ''0'' = Some (LocalPipe 0)"
    by (simp add: ex_stage_def ex_node1_def ex_worker_def ex_exec_def ex_paths)
  from T n m1 obtain sn1 where
    s1: "Self (nodeManager ex_worker) = Some sn1" and
    c1: "(case (if ''10.0.0.2:7000'' = Host sn1
            then runningTasks ex_worker (path_Join [''J1'', Stage (Output ex_stage), ''1''])
            else None) of
        Some t \<Rightarrow> outputs ex_writer ''1'' = Some (LocalPipe (Input (executors ex_worker t)))
      | None \<Rightarrow>
          (\<exists>ps. NewPushStream_result ex_externals ''10.0.0.2:7000''
                   (path_Join [''J1'', Stage (Output ex_stage), ''1'']) = Inr ps \<and>
                outputs ex_writer ''1'' =
                  Some (BufferedOutput ps (Output_BufferLength (opt ex_worker)))))"
    by blast
  from s s1 have "sn1 = ex_node1" by simp
  with c1 have o1: "outputs ex_writer ''1'' =
     Some (BufferedOutput \<lparr>to_host = ''10.0.0.2:7000'', to_task = ''J1/reduce/1''\<rparr> 500)"
    by (simp add: ex_stage_def ex_node1_def ex_worker_def ex_externals_def ex_opt_def ex_paths)
  from T n m2 have o2: "outputs ex_writer ''2'' = None"
    by blast
  from d n o0 o1 o2 show ?thesis by simp
qed

subsection \<open>createTask and CreateTasks\<close>

















text \<open>
  When the functions of the group run in the opposite order, partition \<open>1\<close> is created
  first, and the call succeeds as well.
\<close>

lemma CreateTasks_reversed_example:
  "(case CreateTasks ex_externals_reversed ex_worker ex_req of
      Panic \<Rightarrow> False
    | Return (res, w') \<Rightarrow>
        res = None \<and> started w' = [1, 3, 5] \<and>
        runningTasks w' ''J1/map/1'' = Some 3 \<and> runningTasks w' ''J1/map/0'' = Some 5)"
  by (simp add: CreateTasks_def createTask_def ex_req_def ex_stage_def
      ex_worker_def ex_manager_registered_def ex_crd_def ex_node1_def ex_externals_def
      ex_externals_reversed_def NewTask_def Reference_String_def go_Run_def
      ex_opt_def ex_exec_def Self_def jobManager_CreateTask_def crd_Commit_def Let_def
      newOutputWriter_def getRunningTask_def NewTaskExecutor_def ex_paths)

text \<open>
  When the executor of the second partition cannot be constructed, the call fails while the
  executor of the first partition stays launched, running and recorded.
\<close>

lemma CreateTasks_partial_failure_example:
  "(case CreateTasks ex_externals_second_fails ex_worker ex_req of
      Panic \<Rightarrow> False
    | Return (res, w') \<Rightarrow>
        res = Some (Wrap (New ''unknown function'') ''failed to start executor'') \<and>
        started w' = [1, 3] \<and> state (executors w' 3) = Running \<and>
        runningTasks w' ''J1/map/0'' = Some 3 \<and>
        created_partitions ex_worker w' = [''0''])"
  by (simp add: CreateTasks_def createTask_def ex_req_def ex_stage_def
      ex_worker_def ex_manager_registered_def ex_crd_def ex_node1_def ex_externals_def
      ex_externals_second_fails_def Reporter_ReportFailure_def NewTask_def Reference_String_def
      go_Run_def
      ex_opt_def ex_exec_def Self_def jobManager_CreateTask_def crd_Commit_def Let_def
      newOutputWriter_def getRunningTask_def NewTaskExecutor_def ex_paths
      created_partitions_def started_since_def)

text \<open>
  Claim C6. The claim says that a failure to create the task record and a failure to
  construct the executor both give the partition an error of code \<open>Internal\<close>. At this input
  the task is persisted and the output writer built, \<open>NewTaskExecutor\<close> fails, and
  \<open>createTask\<close> returns the wrapped error, which carries no status code.
\<close>

theorem createTask_executor_failure_not_Internal:
  "outcome_error (createTask ex_externals_no_executor ex_worker ex_req ''1'' ex_stage []) =
     Return (Some (Wrap (New ''unknown function'') ''failed to start executor'')) \<and>
   status_code (Wrap (New ''unknown function'') ''failed to start executor'') \<noteq> Some Internal"
  by (simp add: outcome_error_def createTask_def ex_req_def ex_stage_def
      ex_worker_def ex_manager_registered_def ex_crd_def ex_node1_def ex_externals_def
      ex_externals_no_executor_def Reporter_ReportFailure_def
      ex_opt_def ex_exec_def Self_def jobManager_CreateTask_def crd_Commit_def Let_def
      newOutputWriter_def getRunningTask_def NewTaskExecutor_def ex_paths)

text \<open>
  The failure to create the task record does carry \<open>Internal\<close>; and, more generally than
  at the input above, an error of \<open>NewTaskExecutor\<close> comes back wrapped, without a code.
\<close>

lemma createTask_task_write_failure_Internal:
  assumes "Self (nodeManager w) = Some sn"
    and "Commit (crd (nodeManager w)) (CreateTask_txn (NewTask p sn (Id (Job req)) s)) = Some err"
  shows "outcome_error (createTask x w req p s b) =
           Return (Some (Status Internal (''create task failed: task write: '' @ Error err)))"
  using assms
  by (simp add: outcome_error_def createTask_def jobManager_CreateTask_def crd_Commit_def Let_def)

lemma createTask_NewTaskExecutor_error:
  assumes "createTask x w req p s b = Return (Some e, w1)"
    and "Self (nodeManager w) = Some sn"
    and "Commit (crd (nodeManager w)) (CreateTask_txn (NewTask p sn (Id (Job req)) s)) = None"
    and "NewTaskExecutor_result x (NewTask p sn (Id (Job req)) s) = Some err"
    and "ReportFailure_result x (Reference_String (NewTask p sn (Id (Job req)) s)) = None"
  shows "e = Wrap err ''failed to start executor'' \<or> status_code e = Some Internal"
proof -
  have "case createTask x w req p s b of
          Panic \<Rightarrow> True
        | Return (None, w1) \<Rightarrow> False
        | Return (Some e, w1) \<Rightarrow>
            e = Wrap err ''failed to start executor'' \<or> status_code e = Some Internal"
    using assms(2-5)
    by (simp add: createTask_def Let_def jobManager_CreateTask_def crd_Commit_def
        NewTaskExecutor_def Reporter_ReportFailure_def
        split: option.split outcome.split sum.split)
  with assms(1) show ?thesis by simp
qed

end
